theory Spec2Isabelle
  imports Complex_Main
begin

section \<open>Data model of the surface layers API\<close>

text \<open>
  Coordinates and sizes, Python floats, are modelled as real numbers: arithmetic on them
  is exact, rounding is not part of the model. The thermal calibration is modelled in
  double arithmetic, see below. JSON objects sent by the geodata service are modelled with the keys the code
  reads; a key that may be absent is an \<open>option\<close>.
\<close>

text \<open>
  The request schema \<^verbatim>\<open>LayerRequest\<close>. Its fields \<^verbatim>\<open>lat\<close> and \<^verbatim>\<open>lon\<close> are
  prefixed, the plain names being those of a geometry node.
\<close>

record LayerRequest =
  req_lat :: real
  req_lon :: real
  size_km :: real

text \<open>A geometry node of a way: \<^verbatim>\<open>{'lon': ..., 'lat': ...}\<close>.\<close>

record node =
  lon :: real
  lat :: real

type_synonym tag_dict = "string \<rightharpoonup> string"

text \<open>
  An element of the response: \<^verbatim>\<open>elem['type']\<close> is always present, the keys
  \<^verbatim>\<open>'geometry'\<close> and \<^verbatim>\<open>'tags'\<close> may be absent.
\<close>

record element =
  elem_type :: string
  geometry :: "node list option"
  tags :: "tag_dict option"

text \<open>
  The argument of \<^verbatim>\<open>classify_and_convert\<close>: a falsy value (\<^verbatim>\<open>None\<close>, the empty
  dict), or a dict whose key \<^verbatim>\<open>'elements'\<close> may be absent.
\<close>

datatype osm_data = Falsy | OsmDict "element list option"

text \<open>GeoJSON output: a polygon geometry, a feature, a feature collection.\<close>

record polygon =
  gtype :: string
  coordinates :: "real list list list"

record feature =
  ftype :: string
  fgeometry :: polygon
  properties :: tag_dict

record feature_collection =
  ctype :: string
  features :: "feature list"

section \<open>Classification and conversion\<close>

definition sealed_tags :: "string set" where
  "sealed_tags = {''building'', ''highway'', ''railway'', ''aeroway'', ''amenity''}"

definition sealed_landuse :: "string set" where
  "sealed_landuse = {''industrial'', ''commercial'', ''retail'', ''construction'', ''railway''}"

definition sealed_leisure :: "string set" where
  "sealed_leisure = {''pitch'', ''track'', ''sports_centre''}"

text \<open>
  The expression bound to \<^verbatim>\<open>is_sealed\<close>. \<^verbatim>\<open>tags.get(k)\<close> is \<^verbatim>\<open>None\<close> for an absent
  key, and \<^verbatim>\<open>None\<close> is in neither set of strings.
\<close>

definition is_sealed :: "tag_dict \<Rightarrow> bool" where
  "is_sealed tgs =
     ((\<exists>tag \<in> sealed_tags. tag \<in> dom tgs) \<or>
      (case tgs ''landuse'' of None \<Rightarrow> False | Some v \<Rightarrow> v \<in> sealed_landuse) \<or>
      (case tgs ''leisure'' of None \<Rightarrow> False | Some v \<Rightarrow> v \<in> sealed_leisure))"

definition empty_collection :: feature_collection where
  "empty_collection = \<lparr>ctype = ''FeatureCollection'', features = []\<rparr>"

text \<open>
  The body of the \<^verbatim>\<open>for elem in osm_data['elements']\<close> loop, with the two lists it
  appends to as accumulators. Each \<^verbatim>\<open>continue\<close> is a recursive call with the lists
  unchanged.
\<close>

fun classify_loop :: "element list \<Rightarrow> feature list \<Rightarrow> feature list \<Rightarrow> feature list \<times> feature list" where
  "classify_loop [] sealed_features unsealed_features = (sealed_features, unsealed_features)"
| "classify_loop (elem # rest) sealed_features unsealed_features =
     (if elem_type elem \<noteq> ''way'' then classify_loop rest sealed_features unsealed_features
      else case geometry elem of
        None \<Rightarrow> classify_loop rest sealed_features unsealed_features
      | Some geom \<Rightarrow>
          let tgs = (case tags elem of None \<Rightarrow> Map.empty | Some t \<Rightarrow> t);
              coords = map (\<lambda>nd. [lon nd, lat nd]) geom
          in if length coords < 3 then classify_loop rest sealed_features unsealed_features
             else
               let coords' = (if coords ! 0 \<noteq> last coords then coords @ [coords ! 0] else coords);
                   feat = \<lparr>ftype = ''Feature'',
                           fgeometry = \<lparr>gtype = ''Polygon'', coordinates = [coords']\<rparr>,
                           properties = tgs\<rparr>
               in if is_sealed tgs
                  then classify_loop rest (sealed_features @ [feat]) unsealed_features
                  else classify_loop rest sealed_features (unsealed_features @ [feat]))"

definition classify_and_convert :: "osm_data \<Rightarrow> feature_collection \<times> feature_collection" where
  "classify_and_convert data =
     (case data of
        Falsy \<Rightarrow> (empty_collection, empty_collection)
      | OsmDict None \<Rightarrow> (empty_collection, empty_collection)
      | OsmDict (Some elems) \<Rightarrow>
          (case classify_loop elems [] [] of
             (sealed_features, unsealed_features) \<Rightarrow>
               (\<lparr>ctype = ''FeatureCollection'', features = sealed_features\<rparr>,
                \<lparr>ctype = ''FeatureCollection'', features = unsealed_features\<rparr>)))"

subsection \<open>The classifier as the specification words it\<close>

text \<open>A valid way: of type way, with a geometry of at least three coordinate pairs.\<close>

definition valid_way :: "element \<Rightarrow> bool" where
  "valid_way e =
     (elem_type e = ''way'' \<and> (case geometry e of None \<Rightarrow> False | Some geom \<Rightarrow> 3 \<le> length geom))"

definition tags_of :: "element \<Rightarrow> tag_dict" where
  "tags_of e = (case tags e of None \<Rightarrow> Map.empty | Some t \<Rightarrow> t)"

text \<open>The coordinate pairs of an element, in node order, as \<open>[lon, lat]\<close>.\<close>

definition coords_of :: "element \<Rightarrow> real list list" where
  "coords_of e = (case geometry e of None \<Rightarrow> [] | Some geom \<Rightarrow> map (\<lambda>nd. [lon nd, lat nd]) geom)"

text \<open>Closing a ring: the first pair is appended when it differs from the last one.\<close>

definition close_ring :: "real list list \<Rightarrow> real list list" where
  "close_ring cs = (if hd cs = last cs then cs else cs @ [hd cs])"

definition feature_of :: "element \<Rightarrow> feature" where
  "feature_of e =
     \<lparr>ftype = ''Feature'',
      fgeometry = \<lparr>gtype = ''Polygon'', coordinates = [close_ring (coords_of e)]\<rparr>,
      properties = tags_of e\<rparr>"

text \<open>
  The classification rule as the specification states it: one of five keys is present, or
  the landuse value is one of five, or the leisure value is one of three.
\<close>

definition sealed_by_rules :: "tag_dict \<Rightarrow> bool" where
  "sealed_by_rules tgs =
     (''building'' \<in> dom tgs \<or> ''highway'' \<in> dom tgs \<or> ''railway'' \<in> dom tgs \<or>
      ''aeroway'' \<in> dom tgs \<or> ''amenity'' \<in> dom tgs \<or>
      tgs ''landuse'' = Some ''industrial'' \<or> tgs ''landuse'' = Some ''commercial'' \<or>
      tgs ''landuse'' = Some ''retail'' \<or> tgs ''landuse'' = Some ''construction'' \<or>
      tgs ''landuse'' = Some ''railway'' \<or>
      tgs ''leisure'' = Some ''pitch'' \<or> tgs ''leisure'' = Some ''track'' \<or>
      tgs ''leisure'' = Some ''sports_centre'')"

text \<open>The elements a response carries: none when it is falsy or has no such key.\<close>

definition response_elements :: "osm_data \<Rightarrow> element list" where
  "response_elements data =
     (case data of Falsy \<Rightarrow> [] | OsmDict None \<Rightarrow> [] | OsmDict (Some elems) \<Rightarrow> elems)"

subsection \<open>Example data\<close>

text \<open>A closed building outline, an open park outline, a two-node way and a node.\<close>

definition example_building :: element where
  "example_building =
     \<lparr>elem_type = ''way'',
      geometry = Some [\<lparr>lon = 0, lat = 0\<rparr>, \<lparr>lon = 1, lat = 0\<rparr>, \<lparr>lon = 1, lat = 1\<rparr>, \<lparr>lon = 0, lat = 0\<rparr>],
      tags = Some [''building'' \<mapsto> ''yes'']\<rparr>"

definition example_park :: element where
  "example_park =
     \<lparr>elem_type = ''way'',
      geometry = Some [\<lparr>lon = 2, lat = 2\<rparr>, \<lparr>lon = 3, lat = 2\<rparr>, \<lparr>lon = 3, lat = 3\<rparr>],
      tags = Some [''leisure'' \<mapsto> ''park'']\<rparr>"

definition example_short :: element where
  "example_short =
     \<lparr>elem_type = ''way'',
      geometry = Some [\<lparr>lon = 4, lat = 4\<rparr>, \<lparr>lon = 5, lat = 5\<rparr>],
      tags = Some [''highway'' \<mapsto> ''path'']\<rparr>"

definition example_node :: element where
  "example_node = \<lparr>elem_type = ''node'', geometry = None, tags = None\<rparr>"

definition example_cafe :: element where
  "example_cafe =
     \<lparr>elem_type = ''way'',
      geometry = Some [\<lparr>lon = 6, lat = 6\<rparr>, \<lparr>lon = 7, lat = 6\<rparr>, \<lparr>lon = 7, lat = 7\<rparr>],
      tags = Some [''amenity'' \<mapsto> ''cafe'']\<rparr>"

section \<open>Fetching from the geodata endpoints\<close>

definition OVERPASS_URLS :: "string list" where
  "OVERPASS_URLS =
     [''https://overpass-api.de/api/interpreter'',
      ''https://overpass.kumi.systems/api/interpreter'',
      ''https://overpass.nchc.org.tw/api/interpreter'']"

datatype http_exception = HTTPException nat string

text \<open>
  What \<^verbatim>\<open>client.post\<close> hands back: a status code, and the parsed body, which is
  \<open>None\<close> when \<^verbatim>\<open>response.json()\<close> raises on a malformed body.
\<close>

record response =
  status_code :: nat
  json_body :: "osm_data option"

text \<open>
  The network, as the code sees it: for a URL and a query, \<open>None\<close> when
  \<^verbatim>\<open>client.post\<close> raises (connection failure, timeout), a response otherwise. Each URL
  of a list without repetitions is posted to at most once, so a function of the URL is
  general enough.
\<close>

type_synonym network = "string \<Rightarrow> string \<Rightarrow> response option"

text \<open>
  The body of the \<^verbatim>\<open>try\<close>: post, \<^verbatim>\<open>raise_for_status\<close> (which raises unless the
  status is 2xx), then \<^verbatim>\<open>json()\<close>. \<open>None\<close> is the \<^verbatim>\<open>except Exception: continue\<close>
  branch.
\<close>

definition try_endpoint :: "network \<Rightarrow> string \<Rightarrow> string \<Rightarrow> osm_data option" where
  "try_endpoint net url query =
     (case net url query of
        None \<Rightarrow> None
      | Some resp \<Rightarrow>
          if \<not> (200 \<le> status_code resp \<and> status_code resp < 300) then None
          else json_body resp)"

text \<open>
  The \<^verbatim>\<open>for url in OVERPASS_URLS\<close> loop. The list of URLs posted to so far is threaded
  through, so that the order and number of the calls is part of the result.
\<close>

fun fetch_loop :: "network \<Rightarrow> string list \<Rightarrow> string \<Rightarrow> string list \<Rightarrow> string list \<times> (http_exception + osm_data)" where
  "fetch_loop net [] query posted =
     (posted, Inl (HTTPException 503 ''All Overpass API servers are unavailable''))"
| "fetch_loop net (url # rest) query posted =
     (case try_endpoint net url query of
        Some parsed \<Rightarrow> (posted @ [url], Inr parsed)
      | None \<Rightarrow> fetch_loop net rest query (posted @ [url]))"

definition fetch_overpass_data :: "network \<Rightarrow> string \<Rightarrow> string list \<times> (http_exception + osm_data)" where
  "fetch_overpass_data net query = fetch_loop net OVERPASS_URLS query []"

section \<open>The generate-layers handler\<close>

record LayerResponse =
  sealed_geojson :: feature_collection
  unsealed_geojson :: feature_collection
  status :: string
  sealed_count :: nat
  unsealed_count :: nat

text \<open>
  \<open>build_query\<close> stands for \<^verbatim>\<open>build_combined_query(get_bbox(...))\<close>: it formats floats
  into the query text and cannot raise; the handler only passes its result on.
\<close>

definition generate_layers :: "(LayerRequest \<Rightarrow> string) \<Rightarrow> network \<Rightarrow> LayerRequest \<Rightarrow> http_exception + LayerResponse" where
  "generate_layers build_query net request =
     (let query = build_query request in
      case snd (fetch_overpass_data net query) of
        Inl exn \<Rightarrow> Inl exn
      | Inr data \<Rightarrow>
          (case classify_and_convert data of
             (sealed_fc, unsealed_fc) \<Rightarrow>
               Inr \<lparr>sealed_geojson = sealed_fc,
                    unsealed_geojson = unsealed_fc,
                    status = ''success'',
                    sealed_count = length (features sealed_fc),
                    unsealed_count = length (features unsealed_fc)\<rparr>))"

section \<open>Surface temperature\<close>

subsection \<open>Double-precision numbers\<close>

text \<open>
  The calibration constants are Python floats, that is doubles, and the band arithmetic is
  double arithmetic. A finite double is modelled by a pair \<open>(m, e)\<close> of integers that stands
  for \<open>m * 2 ^ e\<close>. An operation computes the exact result and rounds it to a mantissa of
  53 bits, to nearest, ties to even. The exponent range, infinities and NaN are not
  modelled: the values of the calibration are far inside the range.
\<close>

type_synonym double = "int \<times> int"

definition valof :: "double \<Rightarrow> real" where
  "valof d =
     (if 0 \<le> snd d then of_int (fst d) * 2 ^ nat (snd d)
      else of_int (fst d) / 2 ^ nat (- snd d))"

text \<open>The number of low bits a non-negative mantissa has beyond 53.\<close>

function excess :: "int \<Rightarrow> nat" where
  "excess a = (if a < 2 ^ 53 then 0 else Suc (excess (a div 2)))"
  by pat_completeness auto
termination
  by (relation "measure nat") auto

declare excess.simps [simp del]

definition round53 :: "double \<Rightarrow> double" where
  "round53 d =
     (let a = \<bar>fst d\<bar>; s = excess a; q = a div 2 ^ s; r = a mod 2 ^ s
      in if s = 0 then d
         else
           let q' = (if 2 * r < 2 ^ s then q
                     else if 2 * r > 2 ^ s then q + 1
                     else if even q then q else q + 1)
           in (sgn (fst d) * q', snd d + int s))"

definition fmul :: "double \<Rightarrow> double \<Rightarrow> double" where
  "fmul x y = round53 (fst x * fst y, snd x + snd y)"

definition fadd :: "double \<Rightarrow> double \<Rightarrow> double" where
  "fadd x y =
     (let e = min (snd x) (snd y)
      in round53 (fst x * 2 ^ nat (snd x - e) + fst y * 2 ^ nat (snd y - e), e))"

definition fsub :: "double \<Rightarrow> double \<Rightarrow> double" where
  "fsub x y = fadd x (- fst y, snd y)"

text \<open>
  The doubles that the literals \<^verbatim>\<open>0.00341802\<close>, \<^verbatim>\<open>149.0\<close> and \<^verbatim>\<open>273.15\<close> of the
  source denote, and the double that \<^verbatim>\<open>-124.15\<close> denotes.
\<close>

definition lit_0_00341802 :: double where
  "lit_0_00341802 = (3940708761176295, - 60)"

definition lit_149_0 :: double where
  "lit_149_0 = (149, 0)"

definition lit_273_15 :: double where
  "lit_273_15 = (2402652809016115, - 43)"

definition lit_neg_124_15 :: double where
  "lit_neg_124_15 = (- 4368139794828493, - 45)"

subsection \<open>The calibrated image\<close>

text \<open>
  The handler does not compute on pixels: it builds an image expression that the imagery
  service evaluates. The expression is a datatype; \<open>pixel_value\<close> gives it the meaning
  the service documents: \<^verbatim>\<open>select\<close> keeps one band, \<^verbatim>\<open>multiply\<close>, \<^verbatim>\<open>add\<close> and
  \<^verbatim>\<open>subtract\<close> with a constant act on the value of every band of a pixel, in double
  arithmetic.
\<close>

datatype ee_image =
    Scene
  | Select ee_image string
  | Multiply ee_image double
  | Add ee_image double
  | Subtract ee_image double

type_synonym pixel = "string \<rightharpoonup> double"

fun pixel_value :: "ee_image \<Rightarrow> pixel \<Rightarrow> pixel" where
  "pixel_value Scene px = px"
| "pixel_value (Select img band) px = (\<lambda>b. if b = band then pixel_value img px b else None)"
| "pixel_value (Multiply img c) px = (\<lambda>b. map_option (\<lambda>v. fmul v c) (pixel_value img px b))"
| "pixel_value (Add img c) px = (\<lambda>b. map_option (\<lambda>v. fadd v c) (pixel_value img px b))"
| "pixel_value (Subtract img c) px = (\<lambda>b. map_option (\<lambda>v. fsub v c) (pixel_value img px b))"

definition st_k :: "ee_image \<Rightarrow> ee_image" where
  "st_k img = Add (Multiply (Select img ''ST_B10'') lit_0_00341802) lit_149_0"

definition st_c :: "ee_image \<Rightarrow> ee_image" where
  "st_c img = Subtract (st_k img) lit_273_15"

text \<open>The sampling grid.\<close>

definition grid_size :: real where
  "grid_size = 50"

definition sample_scale_m :: "LayerRequest \<Rightarrow> real" where
  "sample_scale_m request = max (size_km request * 1000.0 / grid_size) 30.0"

definition half_size :: "LayerRequest \<Rightarrow> real" where
  "half_size request = sample_scale_m request / 111320.0"

text \<open>
  A sampled feature: its point \<^verbatim>\<open>[lon, lat]\<close> and the value of \<^verbatim>\<open>ST_B10\<close> among its
  properties, \<open>None\<close> when absent.
\<close>

record sample_point =
  point_lon :: real
  point_lat :: real
  ST_B10 :: "real option"

record temperature_feature =
  tftype :: string
  tfgeometry :: polygon
  temperature :: real

text \<open>
  The loop over the sampled features. \<open>round2\<close> stands for \<^verbatim>\<open>round(float(v), 2)\<close>.
\<close>

fun temperature_loop :: "(real \<Rightarrow> real) \<Rightarrow> real \<Rightarrow> sample_point list \<Rightarrow> temperature_feature list \<Rightarrow> temperature_feature list" where
  "temperature_loop round2 hs [] temperature_data = temperature_data"
| "temperature_loop round2 hs (f # rest) temperature_data =
     (case ST_B10 f of
        None \<Rightarrow> temperature_loop round2 hs rest temperature_data
      | Some temp_val \<Rightarrow>
          let x = point_lon f; y = point_lat f in
          temperature_loop round2 hs rest
            (temperature_data @
             [\<lparr>tftype = ''Feature'',
               tfgeometry =
                 \<lparr>gtype = ''Polygon'',
                  coordinates =
                    [[[x - hs, y - hs], [x + hs, y - hs], [x + hs, y + hs],
                      [x - hs, y + hs], [x - hs, y - hs]]]\<rparr>,
               temperature = round2 temp_val\<rparr>]))"

definition temperature_grid :: "(real \<Rightarrow> real) \<Rightarrow> LayerRequest \<Rightarrow> sample_point list \<Rightarrow> temperature_feature list" where
  "temperature_grid round2 request features_info =
     temperature_loop round2 (half_size request) features_info []"

text \<open>The square the loop builds around a sampled point \<open>f\<close> with value \<open>v\<close>.\<close>

definition square_of :: "(real \<Rightarrow> real) \<Rightarrow> real \<Rightarrow> sample_point \<Rightarrow> real \<Rightarrow> temperature_feature" where
  "square_of round2 hs f v =
     \<lparr>tftype = ''Feature'',
      tfgeometry =
        \<lparr>gtype = ''Polygon'',
         coordinates =
           [[[point_lon f - hs, point_lat f - hs], [point_lon f + hs, point_lat f - hs],
             [point_lon f + hs, point_lat f + hs], [point_lon f - hs, point_lat f + hs],
             [point_lon f - hs, point_lat f - hs]]]\<rparr>,
      temperature = round2 v\<rparr>"

subsection \<open>Example network, request and samples\<close>

text \<open>
  The first endpoint answers with a gateway timeout, the second cannot be reached, the
  third answers with a building and a park.
\<close>

definition example_network :: network where
  "example_network url query =
     (if url = ''https://overpass-api.de/api/interpreter''
      then Some \<lparr>status_code = 504, json_body = None\<rparr>
      else if url = ''https://overpass.nchc.org.tw/api/interpreter''
      then Some \<lparr>status_code = 200, json_body = Some (OsmDict (Some [example_building, example_park]))\<rparr>
      else None)"


definition example_request :: LayerRequest where
  "example_request = \<lparr>req_lat = 48.2082, req_lon = 16.3738, size_km = 5\<rparr>"

definition example_samples :: "sample_point list" where
  "example_samples =
     [\<lparr>point_lon = 16, point_lat = 48, ST_B10 = Some 21\<rparr>,
      \<lparr>point_lon = 17, point_lat = 48, ST_B10 = None\<rparr>]"

section \<open>Properties of the classifier\<close>

lemma classify_loop_filter:
  "classify_loop es s u =
     (s @ map feature_of (filter (\<lambda>e. valid_way e \<and> is_sealed (tags_of e)) es),
      u @ map feature_of (filter (\<lambda>e. valid_way e \<and> \<not> is_sealed (tags_of e)) es))"
proof (induction es arbitrary: s u)
  case Nil
  show ?case by simp
next
  case (Cons e es)
  show ?case
  proof (cases "valid_way e")
    case False
    then show ?thesis
      using Cons.IH by (auto simp: valid_way_def split: option.splits)
  next
    case True
    then obtain geom where g: "elem_type e = ''way''" "geometry e = Some geom" "3 \<le> length geom"
      by (auto simp: valid_way_def split: option.splits)
    from g have ne: "geom \<noteq> []" by auto
    have ring: "(if map (\<lambda>nd. [lon nd, lat nd]) geom ! 0 \<noteq> last (map (\<lambda>nd. [lon nd, lat nd]) geom)
                 then map (\<lambda>nd. [lon nd, lat nd]) geom @ [map (\<lambda>nd. [lon nd, lat nd]) geom ! 0]
                 else map (\<lambda>nd. [lon nd, lat nd]) geom) = close_ring (coords_of e)"
      using g ne by (simp add: close_ring_def coords_of_def hd_conv_nth)
    show ?thesis
      using True g ring Cons.IH
      by (simp add: Let_def feature_of_def tags_of_def del: map_eq_conv)
  qed
qed

lemma is_sealed_rules: "is_sealed tgs = sealed_by_rules tgs"
  by (auto simp: is_sealed_def sealed_by_rules_def sealed_tags_def sealed_landuse_def
      sealed_leisure_def split: option.splits)

lemma classify_features:
  assumes "classify_and_convert (OsmDict (Some es)) = (S, U)"
  shows "features S = map feature_of (filter (\<lambda>e. valid_way e \<and> is_sealed (tags_of e)) es)"
    and "features U = map feature_of (filter (\<lambda>e. valid_way e \<and> \<not> is_sealed (tags_of e)) es)"
  using assms by (auto simp: classify_and_convert_def classify_loop_filter)

lemma properties_feature_of: "properties (feature_of e) = tags_of e"
  by (simp add: feature_of_def)

lemma length_partition:
  "length (filter (\<lambda>e. P e \<and> Q e) es) + length (filter (\<lambda>e. P e \<and> \<not> Q e) es) = length (filter P es)"
  by (induction es) auto

text \<open>
  C2. Every valid way of the input (a way with a geometry of at least three coordinate
  pairs) yields one feature, which goes to the sealed collection when \<open>is_sealed\<close> holds
  of its tags and to the unsealed collection otherwise: the two collections are the
  features of the sealed and of the unsealed valid ways, each in source order. The label
  of a feature is a function of its tag mapping alone, no feature is in both collections,
  every valid way's feature is in one of them, and the two collections together have as
  many features as there are valid ways.
\<close>

theorem classify_partition:
  assumes "classify_and_convert (OsmDict (Some es)) = (S, U)"
  shows "features S = map feature_of (filter (\<lambda>e. valid_way e \<and> is_sealed (tags_of e)) es) \<and>
         features U = map feature_of (filter (\<lambda>e. valid_way e \<and> \<not> is_sealed (tags_of e)) es) \<and>
         (\<forall>f \<in> set (features S). is_sealed (properties f)) \<and>
         (\<forall>f \<in> set (features U). \<not> is_sealed (properties f)) \<and>
         set (features S) \<inter> set (features U) = {} \<and>
         (\<forall>e \<in> set es. valid_way e \<longrightarrow> feature_of e \<in> set (features S) \<union> set (features U)) \<and>
         length (features S) + length (features U) = length (filter valid_way es)"
proof -
  note fs = classify_features [OF assms]
  have s: "\<forall>f \<in> set (features S). is_sealed (properties f)"
    by (auto simp: fs properties_feature_of)
  have u: "\<forall>f \<in> set (features U). \<not> is_sealed (properties f)"
    by (auto simp: fs properties_feature_of)
  have d: "set (features S) \<inter> set (features U) = {}"
    using s u by blast
  have c: "\<forall>e \<in> set es. valid_way e \<longrightarrow> feature_of e \<in> set (features S) \<union> set (features U)"
    by (auto simp: fs)
  have l: "length (features S) + length (features U) = length (filter valid_way es)"
    by (simp add: fs length_partition)
  from fs s u d c l show ?thesis by blast
qed

lemma classify_example:
  "classify_and_convert (OsmDict (Some [example_building, example_node, example_park, example_short, example_cafe])) =
     (\<lparr>ctype = ''FeatureCollection'', features = [feature_of example_building, feature_of example_cafe]\<rparr>,
      \<lparr>ctype = ''FeatureCollection'', features = [feature_of example_park]\<rparr>)"
  by (simp add: classify_and_convert_def classify_loop_filter valid_way_def tags_of_def is_sealed_def
      sealed_tags_def sealed_landuse_def sealed_leisure_def
      example_building_def example_node_def example_park_def example_short_def example_cafe_def)

theorem classify_partition_witness:
  "classify_and_convert (OsmDict (Some [example_building, example_node, example_park, example_short, example_cafe])) =
     (\<lparr>ctype = ''FeatureCollection'', features = [feature_of example_building, feature_of example_cafe]\<rparr>,
      \<lparr>ctype = ''FeatureCollection'', features = [feature_of example_park]\<rparr>) \<and>
   set [feature_of example_building, feature_of example_cafe] \<inter> set [feature_of example_park] = {} \<and>
   length [feature_of example_building, feature_of example_cafe] + length [feature_of example_park] =
     length (filter valid_way [example_building, example_node, example_park, example_short, example_cafe])"
proof -
  note t = classify_partition [OF classify_example]
  from t have d: "set [feature_of example_building, feature_of example_cafe] \<inter> set [feature_of example_park] = {}"
    unfolding feature_collection.simps by (elim conjE)
  from t have l: "length [feature_of example_building, feature_of example_cafe] + length [feature_of example_park] =
     length (filter valid_way [example_building, example_node, example_park, example_short, example_cafe])"
    unfolding feature_collection.simps by (elim conjE)
  from classify_example d l show ?thesis by (intro conjI)
qed

lemma closed_close_ring: "cs \<noteq> [] \<Longrightarrow> close_ring cs \<noteq> [] \<and> hd (close_ring cs) = last (close_ring cs)"
  by (simp add: close_ring_def)

lemma valid_way_coords: "valid_way e \<Longrightarrow> coords_of e \<noteq> []"
  by (auto simp: valid_way_def coords_of_def split: option.splits)

lemma coordinates_feature_of:
  "coordinates (fgeometry (feature_of e)) =
     [if hd (coords_of e) = last (coords_of e) then coords_of e else coords_of e @ [hd (coords_of e)]]"
  by (simp add: feature_of_def close_ring_def)

lemma features_from_valid:
  assumes "classify_and_convert (OsmDict (Some es)) = (S, U)"
  shows "set (features S) \<union> set (features U) = feature_of ` {e \<in> set es. valid_way e}"
  using classify_features [OF assms] by auto

text \<open>
  C3. Every feature of either output collection has a single, non-empty ring whose first
  coordinate pair equals its last. The ring is the element's coordinate list itself when
  that list's first and last pairs coincide, and the list with its first pair appended
  once otherwise; every valid way has such a feature.
\<close>

theorem closed_rings:
  assumes "classify_and_convert (OsmDict (Some es)) = (S, U)"
  shows "(\<forall>f \<in> set (features S) \<union> set (features U).
            \<exists>ring. coordinates (fgeometry f) = [ring] \<and> ring \<noteq> [] \<and> hd ring = last ring) \<and>
         (\<forall>f \<in> set (features S) \<union> set (features U).
            \<exists>e \<in> set es. valid_way e \<and> properties f = tags_of e \<and>
              coordinates (fgeometry f) =
                [if hd (coords_of e) = last (coords_of e) then coords_of e
                 else coords_of e @ [hd (coords_of e)]]) \<and>
         (\<forall>e \<in> set es. valid_way e \<longrightarrow>
            (\<exists>f \<in> set (features S) \<union> set (features U). properties f = tags_of e \<and>
              coordinates (fgeometry f) =
                [if hd (coords_of e) = last (coords_of e) then coords_of e
                 else coords_of e @ [hd (coords_of e)]]))"
proof -
  note img = features_from_valid [OF assms]
  have a: "\<forall>f \<in> set (features S) \<union> set (features U).
            \<exists>ring. coordinates (fgeometry f) = [ring] \<and> ring \<noteq> [] \<and> hd ring = last ring"
  proof
    fix f assume "f \<in> set (features S) \<union> set (features U)"
    then obtain e where e: "valid_way e" "f = feature_of e" using img by auto
    have "coordinates (fgeometry f) = [close_ring (coords_of e)]"
      by (simp add: e feature_of_def)
    with closed_close_ring [OF valid_way_coords [OF e(1)]]
    show "\<exists>ring. coordinates (fgeometry f) = [ring] \<and> ring \<noteq> [] \<and> hd ring = last ring"
      by blast
  qed
  have b: "\<forall>f \<in> set (features S) \<union> set (features U).
            \<exists>e \<in> set es. valid_way e \<and> properties f = tags_of e \<and>
              coordinates (fgeometry f) =
                [if hd (coords_of e) = last (coords_of e) then coords_of e
                 else coords_of e @ [hd (coords_of e)]]"
  proof
    fix f assume "f \<in> set (features S) \<union> set (features U)"
    then obtain e where e: "e \<in> set es" "valid_way e" "f = feature_of e" using img by auto
    show "\<exists>e \<in> set es. valid_way e \<and> properties f = tags_of e \<and>
              coordinates (fgeometry f) =
                [if hd (coords_of e) = last (coords_of e) then coords_of e
                 else coords_of e @ [hd (coords_of e)]]"
      using e coordinates_feature_of [of e] properties_feature_of [of e] by blast
  qed
  have c: "\<forall>e \<in> set es. valid_way e \<longrightarrow>
            (\<exists>f \<in> set (features S) \<union> set (features U). properties f = tags_of e \<and>
              coordinates (fgeometry f) =
                [if hd (coords_of e) = last (coords_of e) then coords_of e
                 else coords_of e @ [hd (coords_of e)]])"
  proof (intro ballI impI)
    fix e assume e: "e \<in> set es" "valid_way e"
    then have "feature_of e \<in> set (features S) \<union> set (features U)" using img by blast
    then show "\<exists>f \<in> set (features S) \<union> set (features U). properties f = tags_of e \<and>
              coordinates (fgeometry f) =
                [if hd (coords_of e) = last (coords_of e) then coords_of e
                 else coords_of e @ [hd (coords_of e)]]"
      using coordinates_feature_of [of e] properties_feature_of [of e] by blast
  qed
  from a b c show ?thesis by blast
qed

theorem closed_rings_witness:
  "classify_and_convert (OsmDict (Some [example_building, example_node, example_park, example_short, example_cafe])) =
     (\<lparr>ctype = ''FeatureCollection'', features = [feature_of example_building, feature_of example_cafe]\<rparr>,
      \<lparr>ctype = ''FeatureCollection'', features = [feature_of example_park]\<rparr>) \<and>
   (\<exists>ring. coordinates (fgeometry (feature_of example_park)) = [ring] \<and> ring \<noteq> [] \<and> hd ring = last ring) \<and>
   coordinates (fgeometry (feature_of example_park)) = [[[2, 2], [3, 2], [3, 3], [2, 2]]] \<and>
   coordinates (fgeometry (feature_of example_building)) = [[[0, 0], [1, 0], [1, 1], [0, 0]]]"
proof -
  note t = closed_rings [OF classify_example]
  from t have "\<forall>f \<in> set (features \<lparr>ctype = ''FeatureCollection'', features = [feature_of example_building, feature_of example_cafe]\<rparr>) \<union>
       set (features \<lparr>ctype = ''FeatureCollection'', features = [feature_of example_park]\<rparr>).
     \<exists>ring. coordinates (fgeometry f) = [ring] \<and> ring \<noteq> [] \<and> hd ring = last ring"
    by (elim conjE)
  then have r: "\<exists>ring. coordinates (fgeometry (feature_of example_park)) = [ring] \<and> ring \<noteq> [] \<and> hd ring = last ring"
    by simp
  have p: "coordinates (fgeometry (feature_of example_park)) = [[[2, 2], [3, 2], [3, 3], [2, 2]]]"
    by (simp add: feature_of_def close_ring_def coords_of_def example_park_def)
  have b: "coordinates (fgeometry (feature_of example_building)) = [[[0, 0], [1, 0], [1, 1], [0, 0]]]"
    by (simp add: feature_of_def close_ring_def coords_of_def example_building_def)
  from classify_example r p b show ?thesis by (intro conjI)
qed

lemma feature_of_tags: "feature_of e = feature_of x \<Longrightarrow> tags_of e = tags_of x"
  using properties_feature_of [of e] properties_feature_of [of x] by simp

lemma feature_in_sealed:
  assumes "classify_and_convert (OsmDict (Some es)) = (S, U)" and "e \<in> set es" and "valid_way e"
  shows "feature_of e \<in> set (features S) \<longleftrightarrow> is_sealed (tags_of e)"
proof
  assume "feature_of e \<in> set (features S)"
  then obtain x where x: "is_sealed (tags_of x)" "feature_of e = feature_of x"
    using classify_features(1) [OF assms(1)] by auto
  from x(2) have "tags_of e = tags_of x" by (rule feature_of_tags)
  with x(1) show "is_sealed (tags_of e)" by simp
next
  assume "is_sealed (tags_of e)"
  then show "feature_of e \<in> set (features S)"
    using classify_features(1) [OF assms(1)] assms(2,3) by auto
qed

lemma feature_in_unsealed:
  assumes "classify_and_convert (OsmDict (Some es)) = (S, U)" and "e \<in> set es" and "valid_way e"
  shows "feature_of e \<in> set (features U) \<longleftrightarrow> \<not> is_sealed (tags_of e)"
proof
  assume "feature_of e \<in> set (features U)"
  then obtain x where x: "\<not> is_sealed (tags_of x)" "feature_of e = feature_of x"
    using classify_features(2) [OF assms(1)] by auto
  from x(2) have "tags_of e = tags_of x" by (rule feature_of_tags)
  with x(1) show "\<not> is_sealed (tags_of e)" by simp
next
  assume "\<not> is_sealed (tags_of e)"
  then show "feature_of e \<in> set (features U)"
    using classify_features(2) [OF assms(1)] assms(2,3) by auto
qed

text \<open>
  C4. The feature of a valid way is in the sealed collection if and only if its tags have
  one of the keys building, highway, railway, aeroway, amenity, or a landuse value among
  industrial, commercial, retail, construction, railway, or a leisure value among pitch,
  track, sports_centre; it is in the unsealed collection if and only if none of these
  holds. An amenity key, whatever its value, makes the element sealed.
\<close>

theorem sealed_iff_rules:
  assumes "classify_and_convert (OsmDict (Some es)) = (S, U)" and "e \<in> set es" and "valid_way e"
  shows "(feature_of e \<in> set (features S) \<longleftrightarrow> sealed_by_rules (tags_of e)) \<and>
         (feature_of e \<in> set (features U) \<longleftrightarrow> \<not> sealed_by_rules (tags_of e)) \<and>
         (''amenity'' \<in> dom (tags_of e) \<longrightarrow>
            feature_of e \<in> set (features S) \<and> feature_of e \<notin> set (features U))"
proof -
  have a: "''amenity'' \<in> dom (tags_of e) \<longrightarrow> sealed_by_rules (tags_of e)"
    by (simp add: sealed_by_rules_def)
  show ?thesis
    using feature_in_sealed [OF assms] feature_in_unsealed [OF assms] a
    by (simp add: is_sealed_rules)
qed

theorem sealed_iff_rules_witness:
  "classify_and_convert (OsmDict (Some [example_building, example_node, example_park, example_short, example_cafe])) =
     (\<lparr>ctype = ''FeatureCollection'', features = [feature_of example_building, feature_of example_cafe]\<rparr>,
      \<lparr>ctype = ''FeatureCollection'', features = [feature_of example_park]\<rparr>) \<and>
   example_cafe \<in> set [example_building, example_node, example_park, example_short, example_cafe] \<and>
   valid_way example_cafe \<and> ''amenity'' \<in> dom (tags_of example_cafe) \<and>
   sealed_by_rules (tags_of example_cafe) \<and>
   feature_of example_cafe \<in> set [feature_of example_building, feature_of example_cafe] \<and>
   feature_of example_cafe \<notin> set [feature_of example_park]"
proof -
  have m: "example_cafe \<in> set [example_building, example_node, example_park, example_short, example_cafe]"
    by simp
  have v: "valid_way example_cafe"
    by (simp add: valid_way_def example_cafe_def)
  have k: "''amenity'' \<in> dom (tags_of example_cafe)"
    by (simp add: tags_of_def example_cafe_def)
  have r: "sealed_by_rules (tags_of example_cafe)"
    using k by (simp add: sealed_by_rules_def)
  note t = sealed_iff_rules [OF classify_example m v]
  from t k have i: "feature_of example_cafe \<in> set [feature_of example_building, feature_of example_cafe]"
    unfolding feature_collection.simps by blast
  from t k have o: "feature_of example_cafe \<notin> set [feature_of example_park]"
    unfolding feature_collection.simps by blast
  from classify_example m v k r i o show ?thesis by (intro conjI)
qed

text \<open>
  C5. An element that is not a way, or has no geometry, or has fewer than three coordinate
  pairs contributes nothing: the output is the same as for the input without it, and
  alone it gives two empty collections.
\<close>

theorem invalid_dropped:
  assumes "elem_type e \<noteq> ''way'' \<or> geometry e = None \<or> (\<exists>geom. geometry e = Some geom \<and> length geom < 3)"
  shows "classify_and_convert (OsmDict (Some (xs @ e # ys))) = classify_and_convert (OsmDict (Some (xs @ ys))) \<and>
         classify_and_convert (OsmDict (Some [e])) = (empty_collection, empty_collection)"
proof -
  from assms have "\<not> valid_way e"
    by (auto simp: valid_way_def split: option.splits)
  then show ?thesis
    by (simp add: classify_and_convert_def classify_loop_filter empty_collection_def)
qed

theorem invalid_dropped_witness:
  "(\<exists>geom. geometry example_short = Some geom \<and> length geom < 3) \<and>
   elem_type example_node \<noteq> ''way'' \<and>
   classify_and_convert (OsmDict (Some ([example_building] @ example_short # [example_park]))) =
     classify_and_convert (OsmDict (Some ([example_building] @ [example_park]))) \<and>
   classify_and_convert (OsmDict (Some [example_node])) = (empty_collection, empty_collection)"
proof -
  have s: "\<exists>geom. geometry example_short = Some geom \<and> length geom < 3"
    by (simp add: example_short_def)
  have n: "elem_type example_node \<noteq> ''way''"
    by (simp add: example_node_def)
  from invalid_dropped [of example_short "[example_building]" "[example_park]"] s
  have a: "classify_and_convert (OsmDict (Some ([example_building] @ example_short # [example_park]))) =
     classify_and_convert (OsmDict (Some ([example_building] @ [example_park])))"
    by blast
  from invalid_dropped [of example_node "[]" "[]"] n
  have b: "classify_and_convert (OsmDict (Some [example_node])) = (empty_collection, empty_collection)"
    by blast
  from s n a b show ?thesis by (intro conjI)
qed

text \<open>
  C10. For a falsy input and for an input without the key \<^verbatim>\<open>'elements'\<close> the function
  returns two feature collections of type FeatureCollection with no features.
\<close>

theorem empty_input_collections:
  "classify_and_convert Falsy = (empty_collection, empty_collection) \<and>
   classify_and_convert (OsmDict None) = (empty_collection, empty_collection) \<and>
   ctype empty_collection = ''FeatureCollection'' \<and> features empty_collection = []"
  by (simp add: classify_and_convert_def empty_collection_def)

theorem empty_input_collections_witness:
  "features (fst (classify_and_convert Falsy)) = [] \<and>
   features (snd (classify_and_convert (OsmDict None))) = []"
  using empty_input_collections by simp

section \<open>Properties of the fetcher\<close>






lemma example_network_tries:
  "try_endpoint example_network (OVERPASS_URLS ! 0) q = None"
  "try_endpoint example_network (OVERPASS_URLS ! 1) q = None"
  "try_endpoint example_network (OVERPASS_URLS ! 2) q = Some (OsmDict (Some [example_building, example_park]))"
  by (simp_all add: try_endpoint_def example_network_def OVERPASS_URLS_def)



section \<open>Properties of the generate-layers handler\<close>

lemma classify_counts:
  "length (features (fst (classify_and_convert data))) + length (features (snd (classify_and_convert data))) =
     length (filter valid_way (response_elements data))"
proof (cases data)
  case Falsy
  then show ?thesis
    by (simp add: classify_and_convert_def response_elements_def empty_collection_def)
next
  case (OsmDict entry)
  show ?thesis
  proof (cases entry)
    case None
    with OsmDict show ?thesis
      by (simp add: classify_and_convert_def response_elements_def empty_collection_def)
  next
    case (Some es)
    with OsmDict show ?thesis
      by (simp add: classify_and_convert_def response_elements_def classify_loop_filter length_partition)
  qed
qed

text \<open>
  C9. Whenever the fetch yields a geodata response, the handler returns a response with
  status success, whose two collections are the classifier's output for the geodata, with
  sealed_count and unsealed_count the numbers of features of the two collections; the
  two counts add up to the number of valid ways of the geodata.
\<close>

theorem generate_layers_counts:
  assumes "snd (fetch_overpass_data net (build_query request)) = Inr data"
  shows "\<exists>resp. generate_layers build_query net request = Inr resp \<and>
           status resp = ''success'' \<and>
           (sealed_geojson resp, unsealed_geojson resp) = classify_and_convert data \<and>
           sealed_count resp = length (features (sealed_geojson resp)) \<and>
           unsealed_count resp = length (features (unsealed_geojson resp)) \<and>
           sealed_count resp + unsealed_count resp = length (filter valid_way (response_elements data))"
proof -
  obtain s u where su: "classify_and_convert data = (s, u)"
    by (cases "classify_and_convert data")
  have g: "generate_layers build_query net request =
      Inr \<lparr>sealed_geojson = s, unsealed_geojson = u, status = ''success'',
           sealed_count = length (features s), unsealed_count = length (features u)\<rparr>"
    using assms su by (simp add: generate_layers_def)
  have n: "length (features s) + length (features u) = length (filter valid_way (response_elements data))"
    using classify_counts [of data] su by simp
  show ?thesis
    using g n su by simp
qed

theorem generate_layers_counts_witness:
  "snd (fetch_overpass_data example_network ''query'') = Inr (OsmDict (Some [example_building, example_park])) \<and>
   (\<exists>resp. generate_layers (\<lambda>r. ''query'') example_network example_request = Inr resp \<and>
      status resp = ''success'' \<and>
      sealed_count resp + unsealed_count resp =
        length (filter valid_way (response_elements (OsmDict (Some [example_building, example_park])))))"
proof -
  have f: "fetch_overpass_data example_network ''query'' =
     (OVERPASS_URLS, Inr (OsmDict (Some [example_building, example_park])))"
    using example_network_tries [of "''query''"]
    by (simp add: fetch_overpass_data_def OVERPASS_URLS_def)
  then have h: "snd (fetch_overpass_data example_network ((\<lambda>r. ''query'') example_request)) =
      Inr (OsmDict (Some [example_building, example_park]))"
    by simp
  from generate_layers_counts [OF h]
  have "\<exists>resp. generate_layers (\<lambda>r. ''query'') example_network example_request = Inr resp \<and>
      status resp = ''success'' \<and>
      sealed_count resp + unsealed_count resp =
        length (filter valid_way (response_elements (OsmDict (Some [example_building, example_park]))))"
    by blast
  moreover from f have "snd (fetch_overpass_data example_network ''query'') =
      Inr (OsmDict (Some [example_building, example_park]))"
    by simp
  ultimately show ?thesis by (intro conjI)
qed

section \<open>Properties of the temperature pipeline\<close>

lemma excess_small: "a < 2 ^ 53 \<Longrightarrow> excess a = 0"
  by (subst excess.simps) simp

lemma round53_small: "\<bar>fst d\<bar> < 2 ^ 53 \<Longrightarrow> round53 d = d"
  by (simp add: round53_def excess_small)

lemma literals_nearest:
  "\<bar>valof lit_0_00341802 - 0.00341802\<bar> \<le> 1 / 2 ^ 62 \<and> valof lit_149_0 = 149.0 \<and>
   \<bar>valof lit_273_15 - 273.15\<bar> \<le> 1 / 2 ^ 45 \<and> \<bar>valof lit_neg_124_15 - (- 124.15)\<bar> \<le> 1 / 2 ^ 47"
  by (simp add: valof_def lit_0_00341802_def lit_149_0_def lit_273_15_def lit_neg_124_15_def)

lemma product_at_zero: "fmul (0, 0) lit_0_00341802 = (0, - 60)"
  by (simp add: fmul_def lit_0_00341802_def round53_small)

lemma kelvin_at_zero: "fadd (0, - 60) lit_149_0 = (5242471441235968, - 45)"
  by code_simp

lemma celsius_at_zero: "fsub (5242471441235968, - 45) lit_273_15 = (- 4368139794828492, - 45)"
  by code_simp

lemma st_c_value:
  "pixel_value (st_c img) px ''ST_B10'' =
     map_option (\<lambda>raw. fsub (fadd (fmul raw lit_0_00341802) lit_149_0) lit_273_15)
       (pixel_value img px ''ST_B10'')"
  by (cases "pixel_value img px ''ST_B10''") (simp_all add: st_c_def st_k_def)

lemma st_c_at_zero:
  "pixel_value img px ''ST_B10'' = Some (0, 0) \<Longrightarrow>
   pixel_value (st_c img) px ''ST_B10'' = Some (- 4368139794828492, - 45)"
  by (simp add: st_c_value product_at_zero kelvin_at_zero celsius_at_zero)

lemma celsius_samples:
  "fsub (fadd (fmul (1, 0) lit_0_00341802) lit_149_0) lit_273_15 = (- 4368019533941005, - 45)"
  "fsub (fadd (fmul (44000, 0) lit_0_00341802) lit_149_0) lit_273_15 = (461669627301284, - 44)"
  "fsub (fadd (fmul (65535, 0) lit_0_00341802) lit_149_0) lit_273_15 = (1756578733318306, - 44)"
  by code_simp+

lemma st_c_samples:
  "pixel_value img px ''ST_B10'' = Some (1, 0) \<longrightarrow>
     (\<exists>v. pixel_value (st_c img) px ''ST_B10'' = Some v \<and> valof v = - (4368019533941005 / 2 ^ 45))"
  "pixel_value img px ''ST_B10'' = Some (44000, 0) \<longrightarrow>
     (\<exists>v. pixel_value (st_c img) px ''ST_B10'' = Some v \<and> valof v = 115417406825321 / 2 ^ 42)"
  "pixel_value img px ''ST_B10'' = Some (65535, 0) \<longrightarrow>
     (\<exists>v. pixel_value (st_c img) px ''ST_B10'' = Some v \<and> valof v = 878289366659153 / 2 ^ 43)"
  by (simp_all add: st_c_value celsius_samples valof_def)

text \<open>
  C7, as the claim states it, fails: in the double arithmetic of the pipeline a raw value
  of 0 is not mapped to \<open>-124.15\<close>, neither to the real number nor to the double that the
  literal \<^verbatim>\<open>-124.15\<close> denotes.
\<close>

theorem calibration_exact_counterexample:
  "map_option valof (pixel_value (st_c Scene) [''ST_B10'' \<mapsto> (0, 0)] ''ST_B10'') \<noteq> Some (- 124.15) \<and>
   map_option valof (pixel_value (st_c Scene) [''ST_B10'' \<mapsto> (0, 0)] ''ST_B10'') \<noteq> Some (valof lit_neg_124_15)"
proof -
  have "pixel_value (st_c Scene) [''ST_B10'' \<mapsto> (0, 0)] ''ST_B10'' = Some (- 4368139794828492, - 45)"
    by (rule st_c_at_zero) simp
  then show ?thesis
    by (simp add: valof_def lit_neg_124_15_def)
qed

text \<open>
  C7, amended. The image expression built for the Celsius band maps a raw thermal value
  \<open>raw\<close> to \<open>(raw * 0.00341802 + 149.0) - 273.15\<close> with the three constants the doubles
  nearest to these decimals and each operation rounded to a double. A raw value of 0 is
  mapped to the double \<open>149.0 - 273.15\<close>, which is \<open>-1092034948707123 / 2 ^ 43\<close>, that is
  -124.14999999999998: within \<open>3 / 10 ^ 14\<close> of \<open>-124.15\<close>. Raw values of 1, 44000 and
  65535 are mapped to -124.14658197999998, 26.242880000000014 and 99.84994070000005, the
  doubles that the program's arithmetic gives.
\<close>

theorem calibration_doubles:
  "pixel_value (st_c img) px ''ST_B10'' =
     map_option (\<lambda>raw. fsub (fadd (fmul raw lit_0_00341802) lit_149_0) lit_273_15)
       (pixel_value img px ''ST_B10'') \<and>
   \<bar>valof lit_0_00341802 - 0.00341802\<bar> \<le> 1 / 2 ^ 62 \<and> valof lit_149_0 = 149.0 \<and>
   \<bar>valof lit_273_15 - 273.15\<bar> \<le> 1 / 2 ^ 45 \<and>
   (pixel_value img px ''ST_B10'' = Some (0, 0) \<longrightarrow>
      (\<exists>v. pixel_value (st_c img) px ''ST_B10'' = Some v \<and>
         valof v = valof lit_149_0 - valof lit_273_15 \<and>
         valof v = - (1092034948707123 / 2 ^ 43) \<and>
         \<bar>valof v - (- 124.15)\<bar> < 3 / 10 ^ 14)) \<and>
   (pixel_value img px ''ST_B10'' = Some (1, 0) \<longrightarrow>
      (\<exists>v. pixel_value (st_c img) px ''ST_B10'' = Some v \<and> valof v = - (4368019533941005 / 2 ^ 45))) \<and>
   (pixel_value img px ''ST_B10'' = Some (44000, 0) \<longrightarrow>
      (\<exists>v. pixel_value (st_c img) px ''ST_B10'' = Some v \<and> valof v = 115417406825321 / 2 ^ 42)) \<and>
   (pixel_value img px ''ST_B10'' = Some (65535, 0) \<longrightarrow>
      (\<exists>v. pixel_value (st_c img) px ''ST_B10'' = Some v \<and> valof v = 878289366659153 / 2 ^ 43))"
proof -
  have z: "pixel_value img px ''ST_B10'' = Some (0, 0) \<longrightarrow>
      (\<exists>v. pixel_value (st_c img) px ''ST_B10'' = Some v \<and>
         valof v = valof lit_149_0 - valof lit_273_15 \<and>
         valof v = - (1092034948707123 / 2 ^ 43) \<and>
         \<bar>valof v - (- 124.15)\<bar> < 3 / 10 ^ 14)"
  proof
    assume "pixel_value img px ''ST_B10'' = Some (0, 0)"
    then have v: "pixel_value (st_c img) px ''ST_B10'' = Some (- 4368139794828492, - 45)"
      by (rule st_c_at_zero)
    have "valof (- 4368139794828492, - 45) = valof lit_149_0 - valof lit_273_15 \<and>
         valof (- 4368139794828492, - 45) = - (1092034948707123 / 2 ^ 43) \<and>
         \<bar>valof (- 4368139794828492, - 45) - (- 124.15)\<bar> < 3 / 10 ^ 14"
      by (simp add: valof_def lit_149_0_def lit_273_15_def)
    with v show "\<exists>v. pixel_value (st_c img) px ''ST_B10'' = Some v \<and>
         valof v = valof lit_149_0 - valof lit_273_15 \<and>
         valof v = - (1092034948707123 / 2 ^ 43) \<and>
         \<bar>valof v - (- 124.15)\<bar> < 3 / 10 ^ 14"
      by blast
  qed
  from st_c_value [of img px] literals_nearest z st_c_samples [of img px] show ?thesis
    by (intro conjI) blast+
qed

theorem calibration_doubles_witness:
  "pixel_value Scene [''ST_B10'' \<mapsto> (0, 0)] ''ST_B10'' = Some (0, 0) \<and>
   (\<exists>v. pixel_value (st_c Scene) [''ST_B10'' \<mapsto> (0, 0)] ''ST_B10'' = Some v \<and>
      valof v = - (1092034948707123 / 2 ^ 43))"
proof -
  have h: "pixel_value Scene [''ST_B10'' \<mapsto> (0, 0)] ''ST_B10'' = Some (0, 0)" by simp
  from calibration_doubles [of Scene "[''ST_B10'' \<mapsto> (0, 0)]"] h
  have "\<exists>v. pixel_value (st_c Scene) [''ST_B10'' \<mapsto> (0, 0)] ''ST_B10'' = Some v \<and>
      valof v = - (1092034948707123 / 2 ^ 43)"
    by blast
  with h show ?thesis by (intro conjI)
qed

lemma temperature_loop_map:
  "temperature_loop round2 hs fs acc =
     acc @ concat (map (\<lambda>f. case ST_B10 f of None \<Rightarrow> [] | Some v \<Rightarrow> [square_of round2 hs f v]) fs)"
  by (induction fs arbitrary: acc) (auto simp: square_of_def Let_def split: option.splits)

lemma temperature_loop_squares:
  "t \<in> set (temperature_loop round2 hs fs acc) \<Longrightarrow>
   t \<in> set acc \<or> (\<exists>f \<in> set fs. \<exists>v. ST_B10 f = Some v \<and> t = square_of round2 hs f v)"
proof -
  assume "t \<in> set (temperature_loop round2 hs fs acc)"
  then consider "t \<in> set acc"
    | f where "f \<in> set fs" "t \<in> set (case ST_B10 f of None \<Rightarrow> [] | Some v \<Rightarrow> [square_of round2 hs f v])"
    unfolding temperature_loop_map by auto
  then show ?thesis
  proof cases
    case 1
    then show ?thesis by simp
  next
    case 2
    then show ?thesis by (cases "ST_B10 f") auto
  qed
qed

text \<open>
  C8. The sampling scale is \<open>max (size_km * 1000 / 50) 30\<close> meters and the half-width is
  that scale divided by 111320; for a size of 5 km they are 100 and 100 / 111320. Every
  polygon of the temperature grid is the square around a sampled point that has a value,
  with that half-width on each side.
\<close>

theorem sampling_scale:
  "sample_scale_m request = max (size_km request * 1000 / 50) 30 \<and>
   half_size request = max (size_km request * 1000 / 50) 30 / 111320 \<and>
   (size_km request = 5 \<longrightarrow> sample_scale_m request = 100 \<and> half_size request = 100 / 111320) \<and>
   (\<forall>t \<in> set (temperature_grid round2 request samples).
      \<exists>f \<in> set samples. \<exists>v. ST_B10 f = Some v \<and> temperature t = round2 v \<and>
        coordinates (tfgeometry t) =
          [[[point_lon f - half_size request, point_lat f - half_size request],
            [point_lon f + half_size request, point_lat f - half_size request],
            [point_lon f + half_size request, point_lat f + half_size request],
            [point_lon f - half_size request, point_lat f + half_size request],
            [point_lon f - half_size request, point_lat f - half_size request]]])"
proof -
  have a: "sample_scale_m request = max (size_km request * 1000 / 50) 30"
    by (simp add: sample_scale_m_def grid_size_def)
  have b: "half_size request = max (size_km request * 1000 / 50) 30 / 111320"
    by (simp add: half_size_def a)
  have c: "size_km request = 5 \<longrightarrow> sample_scale_m request = 100 \<and> half_size request = 100 / 111320"
    by (simp add: a b)
  have d: "\<forall>t \<in> set (temperature_grid round2 request samples).
      \<exists>f \<in> set samples. \<exists>v. ST_B10 f = Some v \<and> temperature t = round2 v \<and>
        coordinates (tfgeometry t) =
          [[[point_lon f - half_size request, point_lat f - half_size request],
            [point_lon f + half_size request, point_lat f - half_size request],
            [point_lon f + half_size request, point_lat f + half_size request],
            [point_lon f - half_size request, point_lat f + half_size request],
            [point_lon f - half_size request, point_lat f - half_size request]]]"
  proof
    fix t assume "t \<in> set (temperature_grid round2 request samples)"
    then obtain f v where fv: "f \<in> set samples" "ST_B10 f = Some v"
        "t = square_of round2 (half_size request) f v"
      unfolding temperature_grid_def
      using temperature_loop_squares [of t round2 "half_size request" samples "[]"] by auto
    show "\<exists>f \<in> set samples. \<exists>v. ST_B10 f = Some v \<and> temperature t = round2 v \<and>
        coordinates (tfgeometry t) =
          [[[point_lon f - half_size request, point_lat f - half_size request],
            [point_lon f + half_size request, point_lat f - half_size request],
            [point_lon f + half_size request, point_lat f + half_size request],
            [point_lon f - half_size request, point_lat f + half_size request],
            [point_lon f - half_size request, point_lat f - half_size request]]]"
      using fv(1,2) unfolding fv(3) square_of_def by (intro bexI [of _ f] exI [of _ v]) simp_all
  qed
  from a b c d show ?thesis by (intro conjI)
qed

lemma example_grid:
  "temperature_grid id example_request example_samples =
     [square_of id (100 / 111320) \<lparr>point_lon = 16, point_lat = 48, ST_B10 = Some 21\<rparr> 21]"
  by (simp add: temperature_grid_def example_samples_def square_of_def half_size_def
      sample_scale_m_def grid_size_def example_request_def)

theorem sampling_scale_witness:
  "size_km example_request = 5 \<and> sample_scale_m example_request = 100 \<and>
   half_size example_request = 100 / 111320 \<and>
   square_of id (100 / 111320) \<lparr>point_lon = 16, point_lat = 48, ST_B10 = Some 21\<rparr> 21
     \<in> set (temperature_grid id example_request example_samples) \<and>
   (\<exists>f \<in> set example_samples. \<exists>v. ST_B10 f = Some v \<and>
      coordinates (tfgeometry (square_of id (100 / 111320) \<lparr>point_lon = 16, point_lat = 48, ST_B10 = Some 21\<rparr> 21)) =
        [[[point_lon f - half_size example_request, point_lat f - half_size example_request],
          [point_lon f + half_size example_request, point_lat f - half_size example_request],
          [point_lon f + half_size example_request, point_lat f + half_size example_request],
          [point_lon f - half_size example_request, point_lat f + half_size example_request],
          [point_lon f - half_size example_request, point_lat f - half_size example_request]]])"
proof -
  note t = sampling_scale [of example_request id example_samples]
  have h: "size_km example_request = 5" by (simp add: example_request_def)
  from t h have s: "sample_scale_m example_request = 100" by blast
  from t h have w: "half_size example_request = 100 / 111320" by blast
  have m: "square_of id (100 / 111320) \<lparr>point_lon = 16, point_lat = 48, ST_B10 = Some 21\<rparr> 21
     \<in> set (temperature_grid id example_request example_samples)"
    by (simp add: example_grid)
  from t m have e: "\<exists>f \<in> set example_samples. \<exists>v. ST_B10 f = Some v \<and>
      coordinates (tfgeometry (square_of id (100 / 111320) \<lparr>point_lon = 16, point_lat = 48, ST_B10 = Some 21\<rparr> 21)) =
        [[[point_lon f - half_size example_request, point_lat f - half_size example_request],
          [point_lon f + half_size example_request, point_lat f - half_size example_request],
          [point_lon f + half_size example_request, point_lat f + half_size example_request],
          [point_lon f - half_size example_request, point_lat f + half_size example_request],
          [point_lon f - half_size example_request, point_lat f - half_size example_request]]]"
    by blast
  from h s w m e show ?thesis by (intro conjI)
qed

end
